theory Spec2Isabelle
  imports Main "HOL-Library.Sublist"
begin

section \<open>The build script \<^verbatim>\<open>setup.py\<close> of pyqubo\<close>

text \<open>
  The development embeds the three classes of \<^verbatim>\<open>setup.py\<close>: \<^verbatim>\<open>CMakeExtension\<close>,
  \<^verbatim>\<open>CMakeBuild\<close> and \<^verbatim>\<open>GoogleTestCommand\<close>. Python strings are lists of characters
  (code points below 256), the process environment \<^verbatim>\<open>os.environ\<close> is a map from names
  to values, an exception is a value of the type \<open>error\<close>, and what a method does to the
  outside world (directories created, subprocesses launched, lines printed) is the list
  of effects it returns, in the order in which they happen.

  The method bodies are modelled as they are written. Lines 123 to 135 of the file are
  indented by three columns inside a class body indented by four; the model reads them
  at the indentation of the class body.
\<close>

subsection \<open>Exceptions and effects\<close>

datatype error =
    KeyError string
  | UnboundLocalError string
  | CalledProcessError int "string list"
  | OSError string
  | DistutilsError string
  | NameError string
  | AttributeError string

text \<open>
  \<open>CheckCall\<close> is a call of \<^verbatim>\<open>subprocess.check_call\<close> with its argument list and its
  working directory, \<open>ShellCall\<close> a call of \<^verbatim>\<open>subprocess.call\<close> with
  \<^verbatim>\<open>shell=True\<close>, \<open>PythonTests\<close> the run of the interpreted test suite by the
  parent class.
\<close>

datatype effect =
    Makedirs string
  | CheckCall "string list" string
  | ShellCall "string list" string
  | PythonTests
  | Print string

subsection \<open>The interpreter's surroundings\<close>

text \<open>
  \<open>host\<close> collects what the script reads from the modules \<^verbatim>\<open>os\<close>, \<^verbatim>\<open>os.path\<close> and
  \<^verbatim>\<open>sys\<close>, whether \<^verbatim>\<open>import ninja\<close> succeeds, what \<^verbatim>\<open>os.makedirs\<close> does on a
  path (\<open>None\<close> when it returns), and what starting a subprocess with given arguments
  in a given directory leads to: the exception of a process that cannot be started, or
  the exit code of the process. The functions of \<^verbatim>\<open>os.path\<close> differ between hosts
  and are parameters. \<open>sysconfig_get_platform\<close> is what \<^verbatim>\<open>get_platform()\<close> of the
  library module \<^verbatim>\<open>sysconfig\<close> returns, \<open>sys_version_info\<close> the first two entries of
  \<^verbatim>\<open>sys.version_info\<close>.
\<close>

record host =
  os_sep :: string
  os_path_abspath :: "string \<Rightarrow> string"
  os_path_dirname :: "string \<Rightarrow> string"
  os_path_join :: "string \<Rightarrow> string \<Rightarrow> string"
  os_path_exists :: "string \<Rightarrow> bool"
  os_environ :: "string \<rightharpoonup> string"
  sys_platform :: string
  sys_executable :: string
  ninja_importable :: bool
  os_makedirs :: "string \<Rightarrow> error option"
  spawn :: "string list \<Rightarrow> string \<Rightarrow> error + int"
  sysconfig_get_platform :: string
  sys_version_info :: "int \<times> int"

text \<open>\<^verbatim>\<open>os.environ.get(k, d)\<close> and \<^verbatim>\<open>os.getenv(k, d)\<close>.\<close>

definition environ_get :: "host \<Rightarrow> string \<Rightarrow> string \<Rightarrow> string" where
  "environ_get h k d = (case os_environ h k of None \<Rightarrow> d | Some v \<Rightarrow> v)"

text \<open>\<^verbatim>\<open>d[k]\<close> on a dictionary: a missing key raises \<^verbatim>\<open>KeyError\<close>.\<close>

definition getitem :: "(string \<rightharpoonup> 'v) \<Rightarrow> string \<Rightarrow> error + 'v" where
  "getitem d k = (case d k of None \<Rightarrow> Inl (KeyError k) | Some v \<Rightarrow> Inr v)"

subsection \<open>String operations of Python used by the script\<close>

text \<open>\<^verbatim>\<open>x in s\<close> on strings: \<open>x\<close> occurs in \<open>s\<close> as a contiguous substring.\<close>

fun str_in :: "string \<Rightarrow> string \<Rightarrow> bool" where
  "str_in x [] = (x = [])"
| "str_in x (c # cs) = (prefix x (c # cs) \<or> str_in x cs)"

text \<open>\<^verbatim>\<open>s.startswith(x)\<close> and \<^verbatim>\<open>s.endswith(x)\<close>.\<close>

definition startswith :: "string \<Rightarrow> string \<Rightarrow> bool" where
  "startswith s x = prefix x s"

definition endswith :: "string \<Rightarrow> string \<Rightarrow> bool" where
  "endswith s x = suffix x s"

text \<open>
  \<^verbatim>\<open>s.upper()\<close>, on the ASCII letters; the script applies it to \<^verbatim>\<open>"Debug"\<close> and
  \<^verbatim>\<open>"Release"\<close> only.
\<close>

definition upper_char :: "char \<Rightarrow> char" where
  "upper_char c =
     (case map_of (zip ''abcdefghijklmnopqrstuvwxyz'' ''ABCDEFGHIJKLMNOPQRSTUVWXYZ'') c of
        Some u \<Rightarrow> u
      | None \<Rightarrow> c)"

definition upper :: "string \<Rightarrow> string" where
  "upper s = map upper_char s"

text \<open>\<^verbatim>\<open>sep.join(xs)\<close>.\<close>

fun str_join :: "string \<Rightarrow> string list \<Rightarrow> string" where
  "str_join s [] = []"
| "str_join s [x] = x"
| "str_join s (x # y # ys) = x @ s @ str_join s (y # ys)"

text \<open>\<^verbatim>\<open>"{}".format(n)\<close> for an integer: its decimal numeral.\<close>

fun digits :: "nat \<Rightarrow> string" where
  "digits n =
     (if n < 10 then [''0123456789'' ! n]
      else digits (n div 10) @ [''0123456789'' ! (n mod 10)])"

declare digits.simps [simp del]

definition str_of_int :: "int \<Rightarrow> string" where
  "str_of_int i = (if i < 0 then ''-'' @ digits (nat (- i)) else digits (nat i))"

text \<open>
  \<^verbatim>\<open>re.findall(r"-arch (\S+)", s)\<close>: the scan goes from left to right; where the six
  characters \<^verbatim>\<open>-arch \<close> are followed by at least one character that is not white
  space, the longest run of such characters is collected and the scan goes on behind it;
  elsewhere it moves on by one character. \<open>is_space\<close> is \<^verbatim>\<open>str.isspace\<close> on the code
  points below 256.
\<close>

definition is_space :: "char \<Rightarrow> bool" where
  "is_space c \<longleftrightarrow> (of_char c :: nat) \<in> {9, 10, 11, 12, 13, 28, 29, 30, 31, 32, 133, 160}"

definition non_space :: "char \<Rightarrow> bool" where
  "non_space c \<longleftrightarrow> \<not> is_space c"

function findall_arch :: "string \<Rightarrow> string list" where
  "findall_arch [] = []"
| "findall_arch (c # cs) =
     (if prefix ''-arch '' (c # cs) \<and> takeWhile non_space (drop 6 (c # cs)) \<noteq> []
      then takeWhile non_space (drop 6 (c # cs))
             # findall_arch (dropWhile non_space (drop 6 (c # cs)))
      else findall_arch cs)"
  by pat_completeness auto
termination
proof (relation "measure length")
  fix c :: char and cs :: string
  assume "prefix ''-arch '' (c # cs) \<and> takeWhile non_space (drop 6 (c # cs)) \<noteq> []"
  have "length (dropWhile non_space (drop 6 (c # cs))) \<le> length (drop 6 (c # cs))"
    by (rule length_dropWhile_le)
  then show "(dropWhile non_space (drop 6 (c # cs)), c # cs) \<in> measure length"
    by simp
qed simp_all

declare findall_arch.simps(2) [simp del]

subsection \<open>The platform table\<close>

text \<open>Lines 16 to 21: distutils platform specifiers and the \<^verbatim>\<open>-A\<close> arguments of CMake.\<close>

definition PLAT_TO_CMAKE :: "string \<rightharpoonup> string" where
  "PLAT_TO_CMAKE =
     map_of [(''win32'', ''Win32''),
             (''win-amd64'', ''x64''),
             (''win-arm32'', ''ARM''),
             (''win-arm64'', ''ARM64'')]"

subsection \<open>\<^verbatim>\<open>CMakeExtension\<close>\<close>

text \<open>
  Lines 26 to 29. \<^verbatim>\<open>Extension.__init__(self, name, sources=[])\<close> stores the name and
  the source list; the constructor adds \<open>sourcedir\<close>.
\<close>

record cmake_extension =
  name :: string
  sources :: "string list"
  sourcedir :: string

definition CMakeExtension_init :: "host \<Rightarrow> string \<Rightarrow> string \<Rightarrow> cmake_extension" where
  "CMakeExtension_init h nm sd =
     \<lparr>name = nm, sources = [], sourcedir = os_path_abspath h sd\<rparr>"

text \<open>The call with one argument takes the default \<^verbatim>\<open>sourcedir=""\<close>.\<close>

definition CMakeExtension_init_default :: "host \<Rightarrow> string \<Rightarrow> cmake_extension" where
  "CMakeExtension_init_default h nm = CMakeExtension_init h nm ''''"

subsection \<open>\<^verbatim>\<open>CMakeBuild.build_extension\<close>\<close>

text \<open>
  The fields of the command object that the method reads. \<open>self_parallel\<close> is
  \<open>None\<close> when the object has no attribute \<^verbatim>\<open>parallel\<close>, \<open>Some None\<close> when the
  attribute is \<^verbatim>\<open>None\<close>, and \<open>Some (Some n)\<close> when it is the integer \<open>n\<close>.
  \<open>get_ext_fullpath\<close> and \<open>get_version\<close> belong to setuptools and are parameters.
\<close>

record cmake_build =
  debug :: bool
  compiler_type :: string
  plat_name :: string
  self_parallel :: "int option option"
  build_temp :: string
  get_ext_fullpath :: "string \<Rightarrow> string"
  get_version :: string

text \<open>Lines 33 to 37: the output directory, with a separator at its end.\<close>

definition extdir_of :: "host \<Rightarrow> cmake_build \<Rightarrow> cmake_extension \<Rightarrow> string" where
  "extdir_of h self ext =
     (let extdir = os_path_abspath h (os_path_dirname h (get_ext_fullpath self (name ext)))
      in if \<not> endswith extdir (os_sep h) then extdir @ os_sep h else extdir)"

text \<open>Line 39.\<close>

definition cfg_of :: "cmake_build \<Rightarrow> string" where
  "cfg_of self = (if debug self then ''Debug'' else ''Release'')"

text \<open>Line 43.\<close>

definition cmake_generator_of :: "host \<Rightarrow> string" where
  "cmake_generator_of h = environ_get h ''CMAKE_GENERATOR'' ''''"

text \<open>Lines 48 to 53: the value \<^verbatim>\<open>cmake_args\<close> starts with.\<close>

definition base_cmake_args :: "host \<Rightarrow> cmake_build \<Rightarrow> string \<Rightarrow> string \<Rightarrow> string list" where
  "base_cmake_args h self extdir cfg =
     [''-DCMAKE_LIBRARY_OUTPUT_DIRECTORY='' @ extdir,
      ''-DPYTHON_EXECUTABLE='' @ sys_executable h,
      ''-DPYQUBO_VERSION_INFO='' @ get_version self,
      ''-DCMAKE_BUILD_TYPE='' @ cfg]"

text \<open>Lines 73 and 76.\<close>

definition single_config :: "string \<Rightarrow> bool" where
  "single_config cmake_generator \<longleftrightarrow>
     str_in ''NMake'' cmake_generator \<or> str_in ''Ninja'' cmake_generator"

definition contains_arch :: "string \<Rightarrow> bool" where
  "contains_arch cmake_generator \<longleftrightarrow>
     str_in ''ARM'' cmake_generator \<or> str_in ''Win64'' cmake_generator"

text \<open>
  Lines 56 to 89: the branch on the compiler, from the pair
  \<open>(cmake_args, build_args)\<close> to the updated pair, or to the \<^verbatim>\<open>KeyError\<close> of the
  lookup in line 82.
\<close>

definition toolchain_branch ::
  "host \<Rightarrow> cmake_build \<Rightarrow> string \<Rightarrow> string \<Rightarrow> string list \<times> string list
     \<Rightarrow> error + (string list \<times> string list)" where
  "toolchain_branch h self extdir cfg args =
     (let cmake_generator = cmake_generator_of h;
          cmake_args = fst args;
          build_args = snd args
      in if compiler_type self \<noteq> ''msvc'' then
           (if cmake_generator = [] then
              (if ninja_importable h then Inr (cmake_args @ [''-GNinja''], build_args)
               else Inr (cmake_args, build_args))
            else Inr (cmake_args, build_args))
         else
           (case (if \<not> single_config cmake_generator \<and> \<not> contains_arch cmake_generator
                  then (case getitem PLAT_TO_CMAKE (plat_name self) of
                          Inl e \<Rightarrow> Inl e
                        | Inr a \<Rightarrow> Inr (cmake_args @ [''-A'', a]))
                  else Inr cmake_args) of
              Inl e \<Rightarrow> Inl e
            | Inr cmake_args1 \<Rightarrow>
                if \<not> single_config cmake_generator then
                  Inr (cmake_args1
                         @ [''-DCMAKE_LIBRARY_OUTPUT_DIRECTORY_'' @ upper cfg @ ''='' @ extdir],
                       build_args @ [''--config'', cfg])
                else Inr (cmake_args1, build_args)))"

text \<open>Line 93: \<^verbatim>\<open>{'True': True, 'False': False}[os.getenv('USE_OMP', 'False')]\<close>.\<close>

definition use_omp_of :: "host \<Rightarrow> error + bool" where
  "use_omp_of h =
     getitem (map_of [(''True'', True), (''False'', False)]) (environ_get h ''USE_OMP'' ''False'')"

text \<open>
  Lines 91 to 98: the branch on the operating system. Line 94 is
  \<^verbatim>\<open>cmake_wargs += ['-DUSE_OMP=No']\<close>; the function assigns \<^verbatim>\<open>cmake_wargs\<close> nowhere
  else, so reading it raises \<^verbatim>\<open>UnboundLocalError\<close>.
\<close>

definition darwin_branch :: "host \<Rightarrow> string list \<Rightarrow> error + string list" where
  "darwin_branch h cmake_args =
     (if startswith (sys_platform h) ''darwin'' then
        (case use_omp_of h of
           Inl e \<Rightarrow> Inl e
         | Inr use_omp \<Rightarrow>
             if \<not> use_omp then Inl (UnboundLocalError ''cmake_wargs'')
             else
               (let archs = findall_arch (environ_get h ''ARCHFLAGS'' '''')
                in if archs \<noteq> []
                   then Inr (cmake_args @ [''-DCMAKE_OSX_ARCHITECTURES='' @ str_join '';'' archs])
                   else Inr cmake_args))
      else Inr cmake_args)"

text \<open>Lines 102 to 107: an integer is true when it is not zero, \<^verbatim>\<open>None\<close> is false.\<close>

definition parallel_branch :: "host \<Rightarrow> cmake_build \<Rightarrow> string list \<Rightarrow> string list" where
  "parallel_branch h self build_args =
     (if os_environ h ''CMAKE_BUILD_PARALLEL_LEVEL'' = None then
        (case self_parallel self of
           Some (Some n) \<Rightarrow> if n \<noteq> 0 then build_args @ [''-j'' @ str_of_int n] else build_args
         | _ \<Rightarrow> build_args)
      else build_args)"

text \<open>
  Lines 33 to 107 together: the values of \<^verbatim>\<open>cmake_args\<close> and \<^verbatim>\<open>build_args\<close> when
  line 109 is reached, or the exception raised before.
\<close>

definition compute_args ::
  "host \<Rightarrow> cmake_build \<Rightarrow> cmake_extension \<Rightarrow> error + (string list \<times> string list)" where
  "compute_args h self ext =
     (let extdir = extdir_of h self ext;
          cfg = cfg_of self
      in case toolchain_branch h self extdir cfg (base_cmake_args h self extdir cfg, []) of
           Inl e \<Rightarrow> Inl e
         | Inr (cmake_args, build_args) \<Rightarrow>
             (case darwin_branch h cmake_args of
                Inl e \<Rightarrow> Inl e
              | Inr cmake_args1 \<Rightarrow> Inr (cmake_args1, parallel_branch h self build_args)))"

text \<open>
  \<^verbatim>\<open>subprocess.check_call(cmd, cwd=d)\<close> starts the process, waits for it and raises
  \<^verbatim>\<open>CalledProcessError\<close> when its exit code is not zero.
\<close>

definition check_call :: "host \<Rightarrow> string list \<Rightarrow> string \<Rightarrow> effect list \<times> (error + unit)" where
  "check_call h cmd cwd =
     ([CheckCall cmd cwd],
      case spawn h cmd cwd of
        Inl e \<Rightarrow> Inl e
      | Inr code \<Rightarrow> if code \<noteq> 0 then Inl (CalledProcessError code cmd) else Inr ())"

text \<open>The whole method, lines 32 to 117.\<close>

definition build_extension ::
  "host \<Rightarrow> cmake_build \<Rightarrow> cmake_extension \<Rightarrow> effect list \<times> (error + unit)" where
  "build_extension h self ext =
     (case compute_args h self ext of
        Inl e \<Rightarrow> ([], Inl e)
      | Inr (cmake_args, build_args) \<Rightarrow>
          (let (fx0, r0) =
                 (if \<not> os_path_exists h (build_temp self)
                  then ([Makedirs (build_temp self)],
                        case os_makedirs h (build_temp self) of
                          Some e \<Rightarrow> Inl e
                        | None \<Rightarrow> Inr ())
                  else ([], Inr ()))
           in case r0 of
                Inl e \<Rightarrow> (fx0, Inl e)
              | Inr _ \<Rightarrow>
                  (let (fx1, r1) =
                         check_call h ([''cmake'', sourcedir ext] @ cmake_args) (build_temp self)
                   in case r1 of
                        Inl e \<Rightarrow> (fx0 @ fx1, Inl e)
                      | Inr _ \<Rightarrow>
                          (let (fx2, r2) =
                                 check_call h ([''cmake'', ''--build'', ''.''] @ build_args)
                                   (build_temp self)
                           in (fx0 @ fx1 @ fx2, r2)))))"

text \<open>The subprocesses among the effects.\<close>

fun is_subprocess :: "effect \<Rightarrow> bool" where
  "is_subprocess (CheckCall cmd cwd) = True"
| "is_subprocess (ShellCall cmd cwd) = True"
| "is_subprocess (Makedirs d) = False"
| "is_subprocess PythonTests = False"
| "is_subprocess (Print s) = False"

subsection \<open>\<^verbatim>\<open>GoogleTestCommand\<close>\<close>

text \<open>
  The names bound at module level when a method of the file runs: the imports of
  lines 1 to 12 and the names the file defines itself. A name that is neither local,
  nor among these, nor a builtin raises \<^verbatim>\<open>NameError\<close> when it is read;
  \<^verbatim>\<open>sysconfig\<close> is not a builtin.
\<close>

definition module_globals :: "string list" where
  "module_globals =
     [''os'', ''re'', ''subprocess'', ''sys'', ''LooseVersion'', ''find_spec'',
      ''setup'', ''Extension'', ''Command'', ''build_ext'', ''TestCommand'', ''PackageInfo'',
      ''PLAT_TO_CMAKE'', ''CMakeExtension'', ''CMakeBuild'', ''GoogleTestCommand'',
      ''PyTestCommand'', ''package_info'']"

definition load_global :: "string \<Rightarrow> error + unit" where
  "load_global n = (if n \<in> set module_globals then Inr () else Inl (NameError n))"

text \<open>
  Lines 131 to 135. The arguments of \<^verbatim>\<open>f.format\<close> are evaluated first, and the first
  of them reads the global name \<^verbatim>\<open>sysconfig\<close>.
\<close>

definition distutils_dir_name :: "host \<Rightarrow> error + string" where
  "distutils_dir_name h =
     (case load_global ''sysconfig'' of
        Inl e \<Rightarrow> Inl e
      | Inr _ \<Rightarrow>
          Inr (''temp.'' @ sysconfig_get_platform h @ ''-''
                 @ str_of_int (fst (sys_version_info h)) @ ''.''
                 @ str_of_int (snd (sys_version_info h))))"

text \<open>
  The command object: \<open>cpplibdir\<close> is \<open>None\<close> as long as the object has no such
  attribute. The file assigns the attribute in one place only, line 124.
\<close>

record google_test_command =
  cpplibdir :: "string option"

text \<open>
  Lines 123 and 124, on the object under construction: the attribute is set when
  \<^verbatim>\<open>distutils_dir_name\<close> returns, and its exception leaves the method otherwise.
\<close>

definition initialize_options :: "host \<Rightarrow> google_test_command \<Rightarrow> error + google_test_command" where
  "initialize_options h self =
     (case distutils_dir_name h of
        Inl e \<Rightarrow> Inl e
      | Inr d \<Rightarrow> Inr (self\<lparr>cpplibdir := Some d\<rparr>))"

text \<open>Reading \<^verbatim>\<open>self.cpplibdir\<close>: an object without the attribute raises.\<close>

definition get_cpplibdir :: "google_test_command \<Rightarrow> error + string" where
  "get_cpplibdir self =
     (case cpplibdir self of
        None \<Rightarrow> Inl (AttributeError ''cpplibdir'')
      | Some d \<Rightarrow> Inr d)"

text \<open>
  \<^verbatim>\<open>subprocess.call(cmd, cwd=d, shell=True)\<close> starts the process, waits for it and
  returns its exit code.
\<close>

definition shell_call :: "host \<Rightarrow> string list \<Rightarrow> string \<Rightarrow> effect list \<times> (error + int)" where
  "shell_call h cmd cwd = ([ShellCall cmd cwd], spawn h cmd cwd)"

text \<open>
  Lines 137 to 146, the body of \<^verbatim>\<open>run\<close> on a command object. \<open>super_run\<close> is what
  the call of the parent's \<^verbatim>\<open>run\<close> in line 139 leads to: \<open>None\<close> when it returns,
  \<open>Some e\<close> when it raises \<open>e\<close>; the parent class belongs to setuptools. The method
  has no handler, so an exception of line 139 leaves it at once. The value returned by
  each \<^verbatim>\<open>subprocess.call\<close> is not used.
\<close>

definition run ::
  "host \<Rightarrow> google_test_command \<Rightarrow> error option \<Rightarrow> effect list \<times> (error + unit)" where
  "run h self super_run =
     (case super_run of
        Some e \<Rightarrow> ([PythonTests], Inl e)
      | None \<Rightarrow>
          (let fx0 = [PythonTests,
                      Print (CHR 0x0A # ''Python tests complete, now running C++ tests...''
                               @ [CHR 0x0A])]
           in case get_cpplibdir self of
                Inl e \<Rightarrow> (fx0, Inl e)
              | Inr d \<Rightarrow>
                  (let fx1 = [Print (os_path_join h ''build/'' d)];
                       (fx2, r2) = shell_call h [''make pyqubo_test''] (os_path_join h ''build'' d)
                   in case r2 of
                        Inl e \<Rightarrow> (fx0 @ fx1 @ fx2, Inl e)
                      | Inr _ \<Rightarrow>
                          (let (fx3, r3) =
                                 shell_call h [''./tests/pyqubo_test'']
                                   (os_path_join h ''build'' d)
                           in case r3 of
                                Inl e \<Rightarrow> (fx0 @ fx1 @ fx2 @ fx3, Inl e)
                              | Inr _ \<Rightarrow> (fx0 @ fx1 @ fx2 @ fx3, Inr ())))))"

text \<open>
  The command \<^verbatim>\<open>test\<close> of line 169, as distutils carries it out: the command object
  is built, which calls \<^verbatim>\<open>initialize_options\<close> on it; \<^verbatim>\<open>finalize_options\<close> (lines
  126 and 127) does nothing; then \<^verbatim>\<open>run\<close> is called. An object whose initialisation
  raises is never run.
\<close>

definition test_command :: "host \<Rightarrow> error option \<Rightarrow> effect list \<times> (error + unit)" where
  "test_command h super_run =
     (case initialize_options h \<lparr>cpplibdir = None\<rparr> of
        Inl e \<Rightarrow> ([], Inl e)
      | Inr self \<Rightarrow> run h self super_run)"

text \<open>
  The exit status of the interpreter: an exception that leaves the command ends the
  process with status 1, a command that returns lets it end with status 0.
\<close>

definition exit_status :: "error + unit \<Rightarrow> int" where
  "exit_status r = (case r of Inl e \<Rightarrow> 1 | Inr _ \<Rightarrow> 0)"

subsection \<open>\<^verbatim>\<open>os.path\<close> on a POSIX host\<close>

text \<open>
  The functions of the module \<^verbatim>\<open>posixpath\<close> of the Python library, for a process
  whose current directory is \<open>cwd\<close>.
\<close>

text \<open>\<^verbatim>\<open>s.split(c)\<close> for a separator of one character.\<close>

fun split_on :: "char \<Rightarrow> string \<Rightarrow> string list" where
  "split_on c [] = [[]]"
| "split_on c (x # xs) =
     (if x = c then [] # split_on c xs
      else (case split_on c xs of
              [] \<Rightarrow> [[x]]
            | w # ws \<Rightarrow> (x # w) # ws))"

definition posix_join :: "string \<Rightarrow> string \<Rightarrow> string" where
  "posix_join a b =
     (if startswith b ''/'' then b
      else if a = [] \<or> endswith a ''/'' then a @ b
      else a @ ''/'' @ b)"

text \<open>
  The body of the loop of \<^verbatim>\<open>normpath\<close> over the components (the loop variable
  \<^verbatim>\<open>comp\<close> is \<open>component\<close> here): \<open>new_comps\<close> is the list built so far,
  \<open>initial_slashes\<close> is 0, 1 or 2.
\<close>

definition normpath_step :: "nat \<Rightarrow> string list \<Rightarrow> string \<Rightarrow> string list" where
  "normpath_step initial_slashes new_comps component =
     (if component = [] \<or> component = ''.'' then new_comps
      else if component \<noteq> ''..'' \<or> (initial_slashes = 0 \<and> new_comps = [])
                \<or> (new_comps \<noteq> [] \<and> last new_comps = ''..'')
           then new_comps @ [component]
      else if new_comps \<noteq> [] then butlast new_comps
      else new_comps)"

definition posix_normpath :: "string \<Rightarrow> string" where
  "posix_normpath path =
     (if path = [] then ''.''
      else
        (let initial_slashes =
               (if startswith path ''/'' then
                  (if startswith path ''//'' \<and> \<not> startswith path ''///'' then 2 else 1)
                else 0);
             comps = foldl (normpath_step initial_slashes) [] (split_on (CHR ''/'') path);
             path1 = str_join ''/'' comps;
             path2 = (if initial_slashes \<noteq> 0
                      then replicate initial_slashes (CHR ''/'') @ path1 else path1)
         in if path2 = [] then ''.'' else path2))"

definition posix_abspath :: "string \<Rightarrow> string \<Rightarrow> string" where
  "posix_abspath cwd path =
     (if \<not> startswith path ''/'' then posix_normpath (posix_join cwd path)
      else posix_normpath path)"

definition posix_dirname :: "string \<Rightarrow> string" where
  "posix_dirname p =
     (let head = rev (dropWhile (\<lambda>c. c \<noteq> CHR ''/'') (rev p))
      in if head \<noteq> [] \<and> head \<noteq> replicate (length head) (CHR ''/'')
         then rev (dropWhile (\<lambda>c. c = CHR ''/'') (rev head))
         else head)"

subsection \<open>An architecture-flags string, token by token\<close>

text \<open>
  The value of \<^verbatim>\<open>ARCHFLAGS\<close> as a list of tokens separated by single spaces:
  \<open>Arch v\<close> is the token pair \<^verbatim>\<open>-arch v\<close>, \<open>Other w\<close> any other word. A value and a
  word are not empty and hold no white space; a word does not end in \<^verbatim>\<open>-arch\<close>.
  \<open>arch_values\<close> lists the values of the \<^verbatim>\<open>-arch\<close> tokens from left to right.
\<close>

datatype flag = Arch string | Other string

fun flag_text :: "flag \<Rightarrow> string" where
  "flag_text (Arch v) = ''-arch '' @ v"
| "flag_text (Other w) = w"

fun flag_ok :: "flag \<Rightarrow> bool" where
  "flag_ok (Arch v) = (v \<noteq> [] \<and> list_all non_space v)"
| "flag_ok (Other w) = (w \<noteq> [] \<and> list_all non_space w \<and> \<not> endswith w ''-arch'')"

definition archflags_of :: "flag list \<Rightarrow> string" where
  "archflags_of fs = str_join '' '' (map flag_text fs)"

fun arch_values :: "flag list \<Rightarrow> string list" where
  "arch_values [] = []"
| "arch_values (Arch v # fs) = v # arch_values fs"
| "arch_values (Other w # fs) = arch_values fs"

text \<open>What follows a flag: nothing, or a space and more text.\<close>

definition flag_end :: "string \<Rightarrow> bool" where
  "flag_end r \<longleftrightarrow> r = [] \<or> hd r = CHR '' ''"

subsection \<open>Sample hosts and commands\<close>

text \<open>
  A POSIX host with current directory \<open>cwd\<close>, platform name \<open>plat\<close> and
  environment \<open>env\<close>, on which no directory exists yet and every subprocess ends with
  the exit code \<open>code\<close>.
\<close>

definition posix_host :: "string \<Rightarrow> string \<Rightarrow> (string \<rightharpoonup> string) \<Rightarrow> int \<Rightarrow> host" where
  "posix_host cwd plat env code =
     \<lparr>os_sep = ''/'',
      os_path_abspath = posix_abspath cwd,
      os_path_dirname = posix_dirname,
      os_path_join = posix_join,
      os_path_exists = (\<lambda>p. False),
      os_environ = env,
      sys_platform = plat,
      sys_executable = ''/usr/bin/python3'',
      ninja_importable = False,
      os_makedirs = (\<lambda>p. None),
      spawn = (\<lambda>cmd d. Inr code),
      sysconfig_get_platform = ''linux-x86_64'',
      sys_version_info = (3, 8)\<rparr>"

text \<open>
  A Windows host, whose separator is the backslash; its path functions are kept
  simple: the empty path stands for the current directory, every other path is taken
  as absolute, and the directory of a path is the part before its last backslash.
\<close>

definition windows_host :: "(string \<rightharpoonup> string) \<Rightarrow> host" where
  "windows_host env =
     \<lparr>os_sep = [CHR 0x5C],
      os_path_abspath = (\<lambda>p. if p = [] then ''C:'' @ [CHR 0x5C] @ ''work'' else p),
      os_path_dirname = (\<lambda>p. butlast (rev (dropWhile (\<lambda>c. c \<noteq> CHR 0x5C) (rev p)))),
      os_path_join = (\<lambda>a b. a @ [CHR 0x5C] @ b),
      os_path_exists = (\<lambda>p. False),
      os_environ = env,
      sys_platform = ''win32'',
      sys_executable = ''python.exe'',
      ninja_importable = False,
      os_makedirs = (\<lambda>p. None),
      spawn = (\<lambda>cmd d. Inr 0),
      sysconfig_get_platform = ''win-amd64'',
      sys_version_info = (3, 8)\<rparr>"

definition msvc_build :: "bool \<Rightarrow> string \<Rightarrow> int option option \<Rightarrow> cmake_build" where
  "msvc_build dbg plat jobs =
     \<lparr>debug = dbg,
      compiler_type = ''msvc'',
      plat_name = plat,
      self_parallel = jobs,
      build_temp = ''build'' @ [CHR 0x5C] @ ''temp'',
      get_ext_fullpath = (\<lambda>n. ''C:'' @ [CHR 0x5C] @ ''lib'' @ [CHR 0x5C] @ n @ ''.pyd''),
      get_version = ''1.0.0''\<rparr>"

definition unix_build :: "bool \<Rightarrow> string \<Rightarrow> int option option \<Rightarrow> cmake_build" where
  "unix_build dbg plat jobs =
     \<lparr>debug = dbg,
      compiler_type = ''unix'',
      plat_name = plat,
      self_parallel = jobs,
      build_temp = ''build/temp'',
      get_ext_fullpath = (\<lambda>n. ''build/lib/'' @ n @ ''.so''),
      get_version = ''1.0.0''\<rparr>"

text \<open>Line 168: the extension of the package, \<^verbatim>\<open>CMakeExtension('pyqubo')\<close>.\<close>

definition pyqubo_ext :: "host \<Rightarrow> cmake_extension" where
  "pyqubo_ext h = CMakeExtension_init_default h ''pyqubo''"

section \<open>Properties\<close>

subsection \<open>Auxiliary facts\<close>

text \<open>Python's \<^verbatim>\<open>x in s\<close> is the contiguous-sublist relation of the list library.\<close>

lemma str_in_sublist: "str_in x s \<longleftrightarrow> sublist x s"
  by (induction s) (auto simp: sublist_Cons_right)

text \<open>The branches only append to the argument lists.\<close>

lemma toolchain_branch_prefix:
  assumes "toolchain_branch h self extdir cfg (ca, ba) = Inr (ca', ba')"
  shows "prefix ca ca' \<and> prefix ba ba'"
  using assms
  by (auto simp: toolchain_branch_def Let_def split: if_splits sum.splits)

lemma darwin_branch_prefix:
  assumes "darwin_branch h ca = Inr ca'"
  shows "prefix ca ca'"
  using assms
  by (auto simp: darwin_branch_def Let_def split: if_splits sum.splits)

text \<open>A build whose arguments are computed has passed each branch.\<close>

lemma compute_args_Inr:
  assumes "compute_args h self ext = Inr (ca, ba)"
  obtains ca1 ba1 where
    "toolchain_branch h self (extdir_of h self ext) (cfg_of self)
       (base_cmake_args h self (extdir_of h self ext) (cfg_of self), []) = Inr (ca1, ba1)"
    "darwin_branch h ca1 = Inr ca" "ba = parallel_branch h self ba1"
  using assms
  by (auto simp: compute_args_def Let_def split: sum.splits)

lemma compute_args_base_prefix:
  assumes "compute_args h self ext = Inr (ca, ba)"
  shows "prefix (base_cmake_args h self (extdir_of h self ext) (cfg_of self)) ca"
  using assms
  by (elim compute_args_Inr)
     (metis toolchain_branch_prefix darwin_branch_prefix prefix_order.trans)

text \<open>
  The effects of the method: none when the computation of the arguments raises, else at
  most the configure call and the build call, in this order, with the computed
  arguments.
\<close>

lemma build_extension_Inl:
  "compute_args h self ext = Inl e \<Longrightarrow> build_extension h self ext = ([], Inl e)"
  by (simp add: build_extension_def)

lemma build_extension_calls:
  assumes "compute_args h self ext = Inr (ca, ba)"
  shows "prefix (filter is_subprocess (fst (build_extension h self ext)))
           [CheckCall ([''cmake'', sourcedir ext] @ ca) (build_temp self),
            CheckCall ([''cmake'', ''--build'', ''.''] @ ba) (build_temp self)]"
  using assms
  by (auto simp: build_extension_def check_call_def Let_def
           split: sum.splits option.splits prod.splits if_splits)

text \<open>The configure arguments do not pass through lines 102 to 107.\<close>

lemma compute_args_drop_parallel:
  "map_sum id fst (compute_args h self ext) =
   (case toolchain_branch h self (extdir_of h self ext) (cfg_of self)
           (base_cmake_args h self (extdir_of h self ext) (cfg_of self), []) of
      Inl e \<Rightarrow> Inl e
    | Inr r \<Rightarrow> darwin_branch h (fst r))"
  by (auto simp: compute_args_def Let_def split: sum.splits)

text \<open>The branch for macOS, by the value of the OpenMP switch.\<close>

lemma darwin_branch_use_omp_false:
  assumes "startswith (sys_platform h) ''darwin''" and "use_omp_of h = Inr False"
  shows "darwin_branch h cmake_args = Inl (UnboundLocalError ''cmake_wargs'')"
  using assms by (simp add: darwin_branch_def)

lemma build_extension_use_omp_false:
  assumes "startswith (sys_platform h) ''darwin''" and "use_omp_of h = Inr False"
  shows "fst (build_extension h self ext) = []
         \<and> (\<exists>e. snd (build_extension h self ext) = Inl e)"
proof -
  from assms have "\<exists>e. compute_args h self ext = Inl e"
    by (auto simp: compute_args_def Let_def darwin_branch_use_omp_false split: sum.splits)
  then show ?thesis
    by (auto simp: build_extension_def)
qed

lemma darwin_branch_use_omp_true:
  assumes "startswith (sys_platform h) ''darwin''" and "use_omp_of h = Inr True"
  shows "darwin_branch h cmake_args =
           Inr (if findall_arch (environ_get h ''ARCHFLAGS'' []) \<noteq> []
                then cmake_args @ [''-DCMAKE_OSX_ARCHITECTURES='' @
                                    str_join '';'' (findall_arch (environ_get h ''ARCHFLAGS'' []))]
                else cmake_args)"
  using assms by (simp add: darwin_branch_def Let_def)

text \<open>The branch on the compiler for MSVC.\<close>

lemma toolchain_branch_msvc_multi:
  assumes "compiler_type self = ''msvc''"
    and "\<not> single_config (cmake_generator_of h)"
    and "toolchain_branch h self extdir cfg (ca, ba) = Inr r"
  shows "''-DCMAKE_LIBRARY_OUTPUT_DIRECTORY_'' @ upper cfg @ ''='' @ extdir \<in> set (fst r)
         \<and> snd r = ba @ [''--config'', cfg]"
  using assms
  by (auto simp: toolchain_branch_def Let_def split: if_splits sum.splits)

lemma toolchain_branch_msvc_succeeds:
  assumes "compiler_type self = ''msvc''"
    and "contains_arch (cmake_generator_of h) \<or> plat_name self \<in> dom PLAT_TO_CMAKE"
  shows "\<exists>r. toolchain_branch h self extdir cfg args = Inr r"
  using assms
  by (auto simp: toolchain_branch_def Let_def getitem_def split: if_splits sum.splits)

lemma darwin_branch_elsewhere:
  "\<not> startswith (sys_platform h) ''darwin'' \<Longrightarrow> darwin_branch h ca = Inr ca"
  by (simp add: darwin_branch_def)

text \<open>The definitions unfolded to evaluate the model on a concrete build.\<close>

lemmas model_defs =
  build_extension_def compute_args_def toolchain_branch_def darwin_branch_def
  parallel_branch_def extdir_of_def cfg_of_def base_cmake_args_def cmake_generator_of_def
  environ_get_def single_config_def contains_arch_def getitem_def PLAT_TO_CMAKE_def
  startswith_def endswith_def upper_def upper_char_def check_call_def str_of_int_def
  use_omp_of_def
lemmas sample_defs =
  windows_host_def posix_host_def msvc_build_def unix_build_def pyqubo_ext_def
  CMakeExtension_init_default_def CMakeExtension_init_def posix_abspath_def posix_join_def
  posix_normpath_def normpath_step_def posix_dirname_def
lemmas eval_defs =
  model_defs sample_defs digits.simps findall_arch.simps suffix_to_prefix Let_def
  non_space_def is_space_def

subsection \<open>The extension descriptor\<close>

text \<open>
  \<^verbatim>\<open>posixpath.normpath\<close> drops a slash at the end of a path, so \<^verbatim>\<open>abspath("")\<close> is the
  normal form of the current directory.
\<close>

lemma split_on_not_Nil: "split_on c s \<noteq> []"
  by (induction s) (auto split: list.splits)

lemma split_on_snoc: "split_on c (s @ [c]) = split_on c s @ [[]]"
proof (induction s)
  case Nil
  show ?case by simp
next
  case (Cons x s)
  obtain w ws where "split_on c s = w # ws"
    using split_on_not_Nil [of c s] by (cases "split_on c s") auto
  with Cons show ?case by simp
qed

lemma normpath_step_empty: "normpath_step i new_comps [] = new_comps"
  by (simp add: normpath_step_def)

lemma startswith_slashes_snoc:
  assumes "path \<noteq> []" and "\<not> endswith path ''/''"
  shows "startswith (path @ ''/'') ''/'' = startswith path ''/''"
    and "startswith (path @ ''/'') ''//'' = startswith path ''//''"
    and "startswith (path @ ''/'') ''///'' = startswith path ''///''"
proof -
  have n1: "path \<noteq> ''/''" and n2: "path \<noteq> ''//''"
    using assms(2) by (auto simp: endswith_def suffix_to_prefix)
  have g: "prefix p (path @ ''/'') = prefix p path"
    if "p = ''/'' \<or> p = ''//'' \<or> p = ''///''" for p
    using that assms(1) n1 n2 unfolding prefix_snoc by auto
  show "startswith (path @ ''/'') ''/'' = startswith path ''/''"
    unfolding startswith_def by (rule g) simp
  show "startswith (path @ ''/'') ''//'' = startswith path ''//''"
    unfolding startswith_def by (rule g) simp
  show "startswith (path @ ''/'') ''///'' = startswith path ''///''"
    unfolding startswith_def by (rule g) simp
qed

lemma posix_normpath_trailing_slash:
  assumes "path \<noteq> []" and "\<not> endswith path ''/''"
  shows "posix_normpath (path @ ''/'') = posix_normpath path"
proof -
  have "foldl (normpath_step i) [] (split_on (CHR ''/'') (path @ ''/''))
        = foldl (normpath_step i) [] (split_on (CHR ''/'') path)" for i
    using split_on_snoc [of "CHR ''/''" path] by (simp add: normpath_step_empty)
  then show ?thesis
    unfolding posix_normpath_def startswith_slashes_snoc [OF assms]
    using assms(1) by simp
qed

lemma posix_abspath_empty:
  assumes "cwd \<noteq> []"
  shows "posix_abspath cwd [] = posix_normpath cwd"
proof (cases "endswith cwd ''/''")
  case True
  then show ?thesis
    by (simp add: posix_abspath_def posix_join_def startswith_def)
next
  case False
  with assms show ?thesis
    by (simp add: posix_abspath_def posix_join_def startswith_def posix_normpath_trailing_slash)
qed

text \<open>
  C10. The constructor stores the name, an empty list of sources, and as
  \<open>sourcedir\<close> what \<^verbatim>\<open>os.path.abspath\<close> returns on its argument; with the default
  argument that is \<^verbatim>\<open>abspath("")\<close>, which on a POSIX host is the current directory of
  the process (\<^verbatim>\<open>os.getcwd()\<close> returns a path in normal form).
\<close>

theorem cmake_extension_init:
  "name (CMakeExtension_init h nm sd) = nm
   \<and> sources (CMakeExtension_init h nm sd) = []
   \<and> sourcedir (CMakeExtension_init h nm sd) = os_path_abspath h sd
   \<and> sourcedir (CMakeExtension_init_default h nm) = os_path_abspath h []
   \<and> (os_path_abspath h = posix_abspath cwd \<and> posix_normpath cwd = cwd
        \<longrightarrow> sourcedir (CMakeExtension_init_default h nm) = cwd)"
proof (intro conjI impI)
  assume a: "os_path_abspath h = posix_abspath cwd \<and> posix_normpath cwd = cwd"
  then have "cwd \<noteq> []"
    by (auto simp: posix_normpath_def)
  then have "posix_abspath cwd [] = cwd"
    using a by (simp add: posix_abspath_empty)
  then show "sourcedir (CMakeExtension_init_default h nm) = cwd"
    using a by (simp add: CMakeExtension_init_default_def CMakeExtension_init_def)
qed (simp_all add: CMakeExtension_init_default_def CMakeExtension_init_def)

text \<open>
  The extension of the package, built in the directory \<^verbatim>\<open>/work\<close>.
\<close>

theorem cmake_extension_init_witness:
  "posix_normpath ''/work'' = ''/work''
   \<and> pyqubo_ext (posix_host ''/work'' ''linux'' Map.empty 0)
       = \<lparr>name = ''pyqubo'', sources = [], sourcedir = ''/work''\<rparr>"
proof -
  let ?h = "posix_host ''/work'' ''linux'' Map.empty 0"
  have n: "posix_normpath ''/work'' = ''/work''"
    by (simp add: posix_normpath_def normpath_step_def startswith_def)
  have a: "os_path_abspath ?h = posix_abspath ''/work''"
    by (simp add: posix_host_def)
  have e: "pyqubo_ext ?h = CMakeExtension_init ?h ''pyqubo'' []"
    by (simp add: pyqubo_ext_def CMakeExtension_init_default_def)
  have d: "CMakeExtension_init_default ?h ''pyqubo'' = pyqubo_ext ?h"
    by (simp add: pyqubo_ext_def)
  from cmake_extension_init [of ?h "''pyqubo''" "[]" "''/work''"] n a
  have "name (pyqubo_ext ?h) = ''pyqubo'' \<and> sources (pyqubo_ext ?h) = []
        \<and> sourcedir (pyqubo_ext ?h) = ''/work''"
    unfolding d e [symmetric] by blast
  then show ?thesis
    using n by (cases "pyqubo_ext ?h") simp
qed

subsection \<open>The platform table and the output directory\<close>

text \<open>
  C3. For each of the four platform identifiers \<^verbatim>\<open>win32\<close>, \<^verbatim>\<open>win-amd64\<close>,
  \<^verbatim>\<open>win-arm32\<close> and \<^verbatim>\<open>win-arm64\<close> the lookup in \<open>PLAT_TO_CMAKE\<close> returns the
  corresponding architecture argument (\<^verbatim>\<open>Win32\<close>, \<^verbatim>\<open>x64\<close>, \<^verbatim>\<open>ARM\<close>, \<^verbatim>\<open>ARM64\<close>), which
  is never empty. For any other identifier the lookup raises \<^verbatim>\<open>KeyError\<close>, and when
  the table is consulted (MSVC compiler, generator neither single-config nor naming an
  architecture) \<open>build_extension\<close> ends with that error and without any effect, so
  before any subprocess is launched.
\<close>

theorem platform_resolver_closed_set:
  "(p \<in> {''win32'', ''win-amd64'', ''win-arm32'', ''win-arm64''} \<longrightarrow>
      getitem PLAT_TO_CMAKE p =
        Inr (if p = ''win32'' then ''Win32''
             else if p = ''win-amd64'' then ''x64''
             else if p = ''win-arm32'' then ''ARM''
             else ''ARM64'')
      \<and> (\<forall>a. getitem PLAT_TO_CMAKE p = Inr a \<longrightarrow> a \<noteq> []))
   \<and> (p \<notin> {''win32'', ''win-amd64'', ''win-arm32'', ''win-arm64''} \<longrightarrow>
      getitem PLAT_TO_CMAKE p = Inl (KeyError p)
      \<and> (compiler_type self = ''msvc'' \<and> plat_name self = p
           \<and> \<not> single_config (cmake_generator_of h) \<and> \<not> contains_arch (cmake_generator_of h)
         \<longrightarrow> build_extension h self ext = ([], Inl (KeyError p))))"
proof (intro conjI impI)
  assume "p \<in> {''win32'', ''win-amd64'', ''win-arm32'', ''win-arm64''}"
  then show "getitem PLAT_TO_CMAKE p =
        Inr (if p = ''win32'' then ''Win32''
             else if p = ''win-amd64'' then ''x64''
             else if p = ''win-arm32'' then ''ARM''
             else ''ARM64'')"
    by (auto simp: getitem_def PLAT_TO_CMAKE_def)
  then show "\<forall>a. getitem PLAT_TO_CMAKE p = Inr a \<longrightarrow> a \<noteq> []"
    by (auto split: if_splits)
next
  assume out: "p \<notin> {''win32'', ''win-amd64'', ''win-arm32'', ''win-arm64''}"
  then show miss: "getitem PLAT_TO_CMAKE p = Inl (KeyError p)"
    by (simp add: getitem_def PLAT_TO_CMAKE_def)
  assume "compiler_type self = ''msvc'' \<and> plat_name self = p
           \<and> \<not> single_config (cmake_generator_of h) \<and> \<not> contains_arch (cmake_generator_of h)"
  with miss have "compute_args h self ext = Inl (KeyError p)"
    by (simp add: compute_args_def toolchain_branch_def Let_def)
  then show "build_extension h self ext = ([], Inl (KeyError p))"
    by (rule build_extension_Inl)
qed

text \<open>
  The resolver on \<^verbatim>\<open>win-amd64\<close>, and an MSVC build for the platform
  \<^verbatim>\<open>linux-x86_64\<close> with the default generator.
\<close>

theorem platform_resolver_closed_set_witness:
  "getitem PLAT_TO_CMAKE ''win-amd64'' = Inr ''x64''
   \<and> build_extension (windows_host Map.empty) (msvc_build False ''linux-x86_64'' None)
        (pyqubo_ext (windows_host Map.empty)) = ([], Inl (KeyError ''linux-x86_64''))"
  using platform_resolver_closed_set [of "''win-amd64''"]
    platform_resolver_closed_set [of "''linux-x86_64''" "msvc_build False ''linux-x86_64'' None"
      "windows_host Map.empty" "pyqubo_ext (windows_host Map.empty)"]
  by (simp add: msvc_build_def windows_host_def single_config_def contains_arch_def
        cmake_generator_of_def environ_get_def)

text \<open>
  C4. The output directory computed in lines 33 to 37 ends with the separator of the
  host, whatever path \<^verbatim>\<open>abspath\<close> and \<^verbatim>\<open>dirname\<close> return, and it is this directory that
  the first define of the configure arguments carries.
\<close>

theorem extdir_ends_with_separator:
  "endswith (extdir_of h self ext) (os_sep h)
   \<and> (\<forall>cmake_args build_args. compute_args h self ext = Inr (cmake_args, build_args) \<longrightarrow>
        prefix [''-DCMAKE_LIBRARY_OUTPUT_DIRECTORY='' @ extdir_of h self ext] cmake_args)"
proof (intro conjI allI impI)
  show "endswith (extdir_of h self ext) (os_sep h)"
    by (simp add: extdir_of_def endswith_def Let_def suffix_def)
next
  fix cmake_args build_args
  assume "compute_args h self ext = Inr (cmake_args, build_args)"
  then have "prefix (base_cmake_args h self (extdir_of h self ext) (cfg_of self)) cmake_args"
    by (rule compute_args_base_prefix)
  then show "prefix [''-DCMAKE_LIBRARY_OUTPUT_DIRECTORY='' @ extdir_of h self ext] cmake_args"
    by (auto simp: base_cmake_args_def prefix_def)
qed

text \<open>
  A build on a POSIX host where \<^verbatim>\<open>abspath\<close> returns \<^verbatim>\<open>/work/build/lib\<close>, without a
  separator at its end, and one whose library lies in the root directory, where it
  returns \<^verbatim>\<open>/\<close>.
\<close>

theorem extdir_ends_with_separator_witness:
  "endswith (extdir_of (posix_host ''/work'' ''linux'' Map.empty 0)
               (unix_build False ''linux-x86_64'' None)
               (pyqubo_ext (posix_host ''/work'' ''linux'' Map.empty 0))) ''/''
   \<and> extdir_of (posix_host ''/work'' ''linux'' Map.empty 0)
               (unix_build False ''linux-x86_64'' None)
               (pyqubo_ext (posix_host ''/work'' ''linux'' Map.empty 0)) = ''/work/build/lib/''
   \<and> extdir_of (posix_host ''/work'' ''linux'' Map.empty 0)
               ((unix_build False ''linux-x86_64'' None)
                  \<lparr>get_ext_fullpath := (\<lambda>n. ''/'' @ n @ ''.so'')\<rparr>)
               (pyqubo_ext (posix_host ''/work'' ''linux'' Map.empty 0)) = ''/''
   \<and> compute_args (posix_host ''/work'' ''linux'' Map.empty 0)
               (unix_build False ''linux-x86_64'' None)
               (pyqubo_ext (posix_host ''/work'' ''linux'' Map.empty 0))
       = Inr ([''-DCMAKE_LIBRARY_OUTPUT_DIRECTORY=/work/build/lib/'',
               ''-DPYTHON_EXECUTABLE=/usr/bin/python3'',
               ''-DPYQUBO_VERSION_INFO=1.0.0'',
               ''-DCMAKE_BUILD_TYPE=Release''], [])
   \<and> prefix [''-DCMAKE_LIBRARY_OUTPUT_DIRECTORY='' @
                extdir_of (posix_host ''/work'' ''linux'' Map.empty 0)
                  (unix_build False ''linux-x86_64'' None)
                  (pyqubo_ext (posix_host ''/work'' ''linux'' Map.empty 0))]
         [''-DCMAKE_LIBRARY_OUTPUT_DIRECTORY=/work/build/lib/'',
          ''-DPYTHON_EXECUTABLE=/usr/bin/python3'',
          ''-DPYQUBO_VERSION_INFO=1.0.0'',
          ''-DCMAKE_BUILD_TYPE=Release'']"
proof -
  let ?h = "posix_host ''/work'' ''linux'' Map.empty 0"
  let ?self = "unix_build False ''linux-x86_64'' None"
  have c: "compute_args ?h ?self (pyqubo_ext ?h)
       = Inr ([''-DCMAKE_LIBRARY_OUTPUT_DIRECTORY=/work/build/lib/'',
               ''-DPYTHON_EXECUTABLE=/usr/bin/python3'',
               ''-DPYQUBO_VERSION_INFO=1.0.0'',
               ''-DCMAKE_BUILD_TYPE=Release''], [])"
    by (simp add: eval_defs)
  have s: "os_sep ?h = ''/''"
    by (simp add: posix_host_def)
  have e1: "extdir_of ?h ?self (pyqubo_ext ?h) = ''/work/build/lib/''"
    by (simp add: eval_defs)
  have e2: "extdir_of ?h (?self\<lparr>get_ext_fullpath := (\<lambda>n. ''/'' @ n @ ''.so'')\<rparr>) (pyqubo_ext ?h)
              = ''/''"
    by (simp add: eval_defs)
  from extdir_ends_with_separator [of ?h ?self "pyqubo_ext ?h"]
  have "endswith (extdir_of ?h ?self (pyqubo_ext ?h)) (os_sep ?h)"
    by (rule conjunct1)
  then have "endswith (extdir_of ?h ?self (pyqubo_ext ?h)) ''/''"
    by (simp only: s)
  moreover from extdir_ends_with_separator [of ?h ?self "pyqubo_ext ?h"] c
  have "prefix [''-DCMAKE_LIBRARY_OUTPUT_DIRECTORY='' @ extdir_of ?h ?self (pyqubo_ext ?h)]
          [''-DCMAKE_LIBRARY_OUTPUT_DIRECTORY=/work/build/lib/'',
           ''-DPYTHON_EXECUTABLE=/usr/bin/python3'',
           ''-DPYQUBO_VERSION_INFO=1.0.0'',
           ''-DCMAKE_BUILD_TYPE=Release'']"
    by blast
  ultimately show ?thesis
    using c e1 e2 by blast
qed

text \<open>
  C5. With the MSVC compiler and a generator whose name contains \<^verbatim>\<open>Ninja\<close> or
  \<^verbatim>\<open>NMake\<close>, the generator is classified single-config, the branch on the compiler
  leaves both argument lists as they are (the platform table is not consulted), and the
  configure arguments of the build do not contain \<^verbatim>\<open>-A\<close>.
\<close>

theorem single_config_no_arch_argument:
  assumes "compiler_type self = ''msvc''"
    and "str_in ''Ninja'' (cmake_generator_of h) \<or> str_in ''NMake'' (cmake_generator_of h)"
  shows "single_config (cmake_generator_of h)
     \<and> toolchain_branch h self extdir cfg (cmake_args, build_args) = Inr (cmake_args, build_args)
     \<and> (\<forall>ca ba. compute_args h self ext = Inr (ca, ba) \<longrightarrow> ''-A'' \<notin> set ca)"
proof (intro conjI allI impI)
  show sc: "single_config (cmake_generator_of h)"
    using assms(2) by (auto simp: single_config_def)
  show tb: "toolchain_branch h self extdir cfg (cmake_args, build_args) = Inr (cmake_args, build_args)"
    for extdir cfg cmake_args build_args
    using assms(1) sc by (simp add: toolchain_branch_def Let_def)
  fix ca ba
  assume "compute_args h self ext = Inr (ca, ba)"
  then obtain ca1 ba1 where
    t: "toolchain_branch h self (extdir_of h self ext) (cfg_of self)
          (base_cmake_args h self (extdir_of h self ext) (cfg_of self), []) = Inr (ca1, ba1)"
    and d: "darwin_branch h ca1 = Inr ca"
    by (rule compute_args_Inr)
  from t have "ca1 = base_cmake_args h self (extdir_of h self ext) (cfg_of self)"
    by (simp add: tb)
  then have "''-A'' \<notin> set ca1"
    by (simp add: base_cmake_args_def)
  with d show "''-A'' \<notin> set ca"
    by (auto simp: darwin_branch_def Let_def split: if_splits sum.splits)
qed

text \<open>
  An MSVC build for \<^verbatim>\<open>win-amd64\<close>, a platform of the table, with the generator
  \<^verbatim>\<open>Ninja Multi-Config\<close>.
\<close>

theorem single_config_no_arch_argument_witness:
  "compute_args (windows_host [''CMAKE_GENERATOR'' \<mapsto> ''Ninja Multi-Config''])
      (msvc_build False ''win-amd64'' None)
      (pyqubo_ext (windows_host Map.empty))
     = Inr ([''-DCMAKE_LIBRARY_OUTPUT_DIRECTORY=C:'' @ [CHR 0x5C] @ ''lib'' @ [CHR 0x5C],
             ''-DPYTHON_EXECUTABLE=python.exe'',
             ''-DPYQUBO_VERSION_INFO=1.0.0'',
             ''-DCMAKE_BUILD_TYPE=Release''], [])
   \<and> ''-A'' \<notin> set [''-DCMAKE_LIBRARY_OUTPUT_DIRECTORY=C:'' @ [CHR 0x5C] @ ''lib'' @ [CHR 0x5C],
             ''-DPYTHON_EXECUTABLE=python.exe'',
             ''-DPYQUBO_VERSION_INFO=1.0.0'',
             ''-DCMAKE_BUILD_TYPE=Release'']"
proof -
  let ?h = "windows_host [''CMAKE_GENERATOR'' \<mapsto> ''Ninja Multi-Config'']"
  let ?self = "msvc_build False ''win-amd64'' None"
  let ?ext = "pyqubo_ext (windows_host Map.empty)"
  have m: "compiler_type ?self = ''msvc''"
    by (simp add: msvc_build_def)
  have g: "str_in ''Ninja'' (cmake_generator_of ?h) \<or> str_in ''NMake'' (cmake_generator_of ?h)"
    by (simp add: cmake_generator_of_def environ_get_def windows_host_def)
  have c: "compute_args ?h ?self ?ext
     = Inr ([''-DCMAKE_LIBRARY_OUTPUT_DIRECTORY=C:'' @ [CHR 0x5C] @ ''lib'' @ [CHR 0x5C],
             ''-DPYTHON_EXECUTABLE=python.exe'',
             ''-DPYQUBO_VERSION_INFO=1.0.0'',
             ''-DCMAKE_BUILD_TYPE=Release''], [])"
    by (simp add: eval_defs)
  from single_config_no_arch_argument [OF m g, of _ _ _ _ ?ext] c
  show ?thesis by blast
qed

text \<open>
  C6. With the MSVC compiler, a generator that is not single-config and a debug build,
  the upper-cased configuration name is \<^verbatim>\<open>DEBUG\<close>; the configure arguments of the
  build contain the define \<^verbatim>\<open>-DCMAKE_LIBRARY_OUTPUT_DIRECTORY_DEBUG=<extdir>\<close> and its
  build arguments start with \<^verbatim>\<open>--config\<close>, \<^verbatim>\<open>Debug\<close>. The build has these argument
  lists (it reaches its configure call) whenever the generator names an architecture
  or the platform is in the table, on a host that is not macOS.
\<close>

theorem multi_config_debug_arguments:
  assumes "compiler_type self = ''msvc''"
    and "\<not> single_config (cmake_generator_of h)"
    and "debug self"
  shows "upper (cfg_of self) = ''DEBUG''
     \<and> (\<forall>cmake_args build_args. compute_args h self ext = Inr (cmake_args, build_args) \<longrightarrow>
           ''-DCMAKE_LIBRARY_OUTPUT_DIRECTORY_'' @ ''DEBUG'' @ ''='' @ extdir_of h self ext
              \<in> set cmake_args
           \<and> prefix [''--config'', ''Debug''] build_args)
     \<and> ((contains_arch (cmake_generator_of h) \<or> plat_name self \<in> dom PLAT_TO_CMAKE)
          \<and> \<not> startswith (sys_platform h) ''darwin''
         \<longrightarrow> (\<exists>cmake_args build_args. compute_args h self ext = Inr (cmake_args, build_args)))"
proof (intro conjI allI impI)
  have cfg: "cfg_of self = ''Debug''"
    using assms(3) by (simp add: cfg_of_def)
  have up: "upper ''Debug'' = ''DEBUG''"
    by (simp add: upper_def upper_char_def)
  then show "upper (cfg_of self) = ''DEBUG''"
    by (simp add: cfg)
  {
    fix cmake_args build_args
    assume "compute_args h self ext = Inr (cmake_args, build_args)"
    then obtain ca1 ba1 where
      t: "toolchain_branch h self (extdir_of h self ext) (cfg_of self)
            (base_cmake_args h self (extdir_of h self ext) (cfg_of self), []) = Inr (ca1, ba1)"
      and d: "darwin_branch h ca1 = Inr cmake_args"
      and b: "build_args = parallel_branch h self ba1"
      by (rule compute_args_Inr)
    from toolchain_branch_msvc_multi [OF assms(1,2) t] have
      "''-DCMAKE_LIBRARY_OUTPUT_DIRECTORY_'' @ ''DEBUG'' @ ''='' @ extdir_of h self ext \<in> set ca1"
      and ba1: "ba1 = [''--config'', ''Debug'']"
      by (simp_all add: cfg up)
    moreover from d have "set ca1 \<subseteq> set cmake_args"
      using darwin_branch_prefix set_mono_prefix by blast
    ultimately show
      "''-DCMAKE_LIBRARY_OUTPUT_DIRECTORY_'' @ ''DEBUG'' @ ''='' @ extdir_of h self ext \<in> set cmake_args"
      by auto
    show "prefix [''--config'', ''Debug''] build_args"
      unfolding b ba1 by (auto simp: parallel_branch_def split: option.splits)
  }
  assume ok: "(contains_arch (cmake_generator_of h) \<or> plat_name self \<in> dom PLAT_TO_CMAKE)
          \<and> \<not> startswith (sys_platform h) ''darwin''"
  then obtain r where
    "toolchain_branch h self (extdir_of h self ext) (cfg_of self)
       (base_cmake_args h self (extdir_of h self ext) (cfg_of self), []) = Inr r"
    using toolchain_branch_msvc_succeeds [OF assms(1)] by blast
  with ok show "\<exists>cmake_args build_args. compute_args h self ext = Inr (cmake_args, build_args)"
    by (simp add: compute_args_def Let_def darwin_branch_elsewhere split: prod.splits)
qed

text \<open>
  A debug build with MSVC for \<^verbatim>\<open>win-amd64\<close> and the default generator.
\<close>

theorem multi_config_debug_arguments_witness:
  "compute_args (windows_host Map.empty) (msvc_build True ''win-amd64'' None)
      (pyqubo_ext (windows_host Map.empty))
     = Inr ([''-DCMAKE_LIBRARY_OUTPUT_DIRECTORY=C:'' @ [CHR 0x5C] @ ''lib'' @ [CHR 0x5C],
             ''-DPYTHON_EXECUTABLE=python.exe'',
             ''-DPYQUBO_VERSION_INFO=1.0.0'',
             ''-DCMAKE_BUILD_TYPE=Debug'',
             ''-A'', ''x64'',
             ''-DCMAKE_LIBRARY_OUTPUT_DIRECTORY_DEBUG=C:'' @ [CHR 0x5C] @ ''lib'' @ [CHR 0x5C]],
            [''--config'', ''Debug''])
   \<and> upper (cfg_of (msvc_build True ''win-amd64'' None)) = ''DEBUG''
   \<and> prefix [''--config'', ''Debug''] [''--config'', ''Debug'']"
proof -
  let ?h = "windows_host Map.empty"
  let ?self = "msvc_build True ''win-amd64'' None"
  have m: "compiler_type ?self = ''msvc''"
    by (simp add: msvc_build_def)
  have g: "\<not> single_config (cmake_generator_of ?h)"
    by (simp add: single_config_def cmake_generator_of_def environ_get_def windows_host_def)
  have dbg: "debug ?self"
    by (simp add: msvc_build_def)
  have c: "compute_args ?h ?self (pyqubo_ext ?h)
     = Inr ([''-DCMAKE_LIBRARY_OUTPUT_DIRECTORY=C:'' @ [CHR 0x5C] @ ''lib'' @ [CHR 0x5C],
             ''-DPYTHON_EXECUTABLE=python.exe'',
             ''-DPYQUBO_VERSION_INFO=1.0.0'',
             ''-DCMAKE_BUILD_TYPE=Debug'',
             ''-A'', ''x64'',
             ''-DCMAKE_LIBRARY_OUTPUT_DIRECTORY_DEBUG=C:'' @ [CHR 0x5C] @ ''lib'' @ [CHR 0x5C]],
            [''--config'', ''Debug''])"
    by (simp add: eval_defs)
  from multi_config_debug_arguments [OF m g dbg, of "pyqubo_ext ?h"] c
  have "upper (cfg_of ?self) = ''DEBUG'' \<and> prefix [''--config'', ''Debug''] [''--config'', ''Debug'']"
    by blast
  with c show ?thesis by simp
qed

subsection \<open>The environment: OpenMP and the job count\<close>

text \<open>
  C8. The lookup of line 93 returns \<open>True\<close> for the value \<^verbatim>\<open>True\<close> of \<^verbatim>\<open>USE_OMP\<close>,
  \<open>False\<close> for the value \<^verbatim>\<open>False\<close> and for an unset variable, and raises
  \<^verbatim>\<open>KeyError\<close> for every other value; on a host whose platform name starts with
  \<^verbatim>\<open>darwin\<close> the build then ends with an error and without any effect, so before any
  subprocess is launched, and the error is this \<^verbatim>\<open>KeyError\<close> when the compiler is
  not MSVC.
\<close>

theorem use_omp_resolution:
  "(os_environ h ''USE_OMP'' = Some ''True'' \<longrightarrow> use_omp_of h = Inr True)
   \<and> (os_environ h ''USE_OMP'' = Some ''False'' \<longrightarrow> use_omp_of h = Inr False)
   \<and> (os_environ h ''USE_OMP'' = None \<longrightarrow> use_omp_of h = Inr False)
   \<and> (\<forall>v. os_environ h ''USE_OMP'' = Some v \<and> v \<noteq> ''True'' \<and> v \<noteq> ''False'' \<longrightarrow>
          use_omp_of h = Inl (KeyError v)
          \<and> (startswith (sys_platform h) ''darwin'' \<longrightarrow>
                fst (build_extension h self ext) = []
                \<and> (\<exists>e. snd (build_extension h self ext) = Inl e)
                \<and> (compiler_type self \<noteq> ''msvc'' \<longrightarrow>
                      snd (build_extension h self ext) = Inl (KeyError v))))"
proof (intro conjI allI impI)
  show "os_environ h ''USE_OMP'' = Some ''True'' \<Longrightarrow> use_omp_of h = Inr True"
    by (simp add: use_omp_of_def getitem_def environ_get_def)
  show "os_environ h ''USE_OMP'' = Some ''False'' \<Longrightarrow> use_omp_of h = Inr False"
    by (simp add: use_omp_of_def getitem_def environ_get_def)
  show "os_environ h ''USE_OMP'' = None \<Longrightarrow> use_omp_of h = Inr False"
    by (simp add: use_omp_of_def getitem_def environ_get_def)
next
  fix v
  assume v: "os_environ h ''USE_OMP'' = Some v \<and> v \<noteq> ''True'' \<and> v \<noteq> ''False''"
  then show bad: "use_omp_of h = Inl (KeyError v)"
    by (simp add: use_omp_of_def getitem_def environ_get_def)
  assume mac: "startswith (sys_platform h) ''darwin''"
  with bad have d: "darwin_branch h ca = Inl (KeyError v)" for ca
    by (simp add: darwin_branch_def)
  then have c: "\<exists>e. compute_args h self ext = Inl e"
    by (auto simp: compute_args_def Let_def split: sum.splits)
  then show "fst (build_extension h self ext) = []"
    by (auto simp: build_extension_def)
  from c show "\<exists>e. snd (build_extension h self ext) = Inl e"
    by (auto simp: build_extension_def)
  assume "compiler_type self \<noteq> ''msvc''"
  then have "\<exists>r. toolchain_branch h self extdir cfg args = Inr r" for extdir cfg args
    by (simp add: toolchain_branch_def Let_def)
  then obtain r where
    "toolchain_branch h self (extdir_of h self ext) (cfg_of self)
       (base_cmake_args h self (extdir_of h self ext) (cfg_of self), []) = Inr r"
    by blast
  with d have "compute_args h self ext = Inl (KeyError v)"
    by (simp add: compute_args_def Let_def split: prod.splits)
  then show "snd (build_extension h self ext) = Inl (KeyError v)"
    by (simp add: build_extension_def)
qed

text \<open>
  The three recognised settings, and a build on macOS with \<^verbatim>\<open>USE_OMP=yes\<close>.
\<close>

theorem use_omp_resolution_witness:
  "use_omp_of (posix_host ''/work'' ''darwin'' [''USE_OMP'' \<mapsto> ''True''] 0) = Inr True
   \<and> use_omp_of (posix_host ''/work'' ''darwin'' [''USE_OMP'' \<mapsto> ''False''] 0) = Inr False
   \<and> use_omp_of (posix_host ''/work'' ''darwin'' Map.empty 0) = Inr False
   \<and> build_extension (posix_host ''/work'' ''darwin'' [''USE_OMP'' \<mapsto> ''yes''] 0)
        (unix_build False ''macosx-11.0-arm64'' None)
        (pyqubo_ext (posix_host ''/work'' ''darwin'' [''USE_OMP'' \<mapsto> ''yes''] 0))
       = ([], Inl (KeyError ''yes''))"
proof -
  let ?h = "\<lambda>env. posix_host ''/work'' ''darwin'' env 0"
  let ?self = "unix_build False ''macosx-11.0-arm64'' None"
  have "use_omp_of (?h [''USE_OMP'' \<mapsto> ''True'']) = Inr True"
    using use_omp_resolution [of "?h [''USE_OMP'' \<mapsto> ''True'']"]
    by (simp add: posix_host_def)
  moreover have "use_omp_of (?h [''USE_OMP'' \<mapsto> ''False'']) = Inr False"
    using use_omp_resolution [of "?h [''USE_OMP'' \<mapsto> ''False'']"]
    by (simp add: posix_host_def)
  moreover have "use_omp_of (?h Map.empty) = Inr False"
    using use_omp_resolution [of "?h Map.empty"]
    by (simp add: posix_host_def)
  moreover have "build_extension (?h [''USE_OMP'' \<mapsto> ''yes'']) ?self
                   (pyqubo_ext (?h [''USE_OMP'' \<mapsto> ''yes''])) = ([], Inl (KeyError ''yes''))"
    using use_omp_resolution [of "?h [''USE_OMP'' \<mapsto> ''yes'']" ?self
                                 "pyqubo_ext (?h [''USE_OMP'' \<mapsto> ''yes''])"]
    by (simp add: posix_host_def unix_build_def startswith_def prod_eq_iff)
  ultimately show ?thesis by simp
qed

text \<open>
  C9. If \<^verbatim>\<open>CMAKE_BUILD_PARALLEL_LEVEL\<close> is not in the environment and
  \<^verbatim>\<open>self.parallel\<close> is a nonzero integer \<open>n\<close>, lines 102 to 107 append \<^verbatim>\<open>-j<n>\<close> and it
  is the last build argument of a build that reaches its configure call. If the variable
  is in the environment, the build arguments are left as they are and none of them
  starts with \<^verbatim>\<open>-j\<close>. The configure arguments (or the error raised instead) depend
  neither on \<^verbatim>\<open>self.parallel\<close> nor on the variable.
\<close>

theorem job_count_argument:
  "(os_environ h ''CMAKE_BUILD_PARALLEL_LEVEL'' = None \<and> self_parallel self = Some (Some n) \<and> n \<noteq> 0
      \<longrightarrow> parallel_branch h self build_args = build_args @ [''-j'' @ str_of_int n]
        \<and> (\<forall>ca ba. compute_args h self ext = Inr (ca, ba) \<longrightarrow> last ba = ''-j'' @ str_of_int n \<and> ba \<noteq> []))
   \<and> (os_environ h ''CMAKE_BUILD_PARALLEL_LEVEL'' \<noteq> None
      \<longrightarrow> parallel_branch h self build_args = build_args
        \<and> (\<forall>ca ba. compute_args h self ext = Inr (ca, ba) \<longrightarrow> (\<forall>a \<in> set ba. \<not> prefix ''-j'' a)))
   \<and> map_sum id fst (compute_args h (self\<lparr>self_parallel := p\<rparr>) ext)
       = map_sum id fst (compute_args h self ext)
   \<and> map_sum id fst
         (compute_args (h\<lparr>os_environ := (os_environ h)(''CMAKE_BUILD_PARALLEL_LEVEL'' := l)\<rparr>) self ext)
       = map_sum id fst (compute_args h self ext)"
proof (intro conjI allI impI)
  assume a: "os_environ h ''CMAKE_BUILD_PARALLEL_LEVEL'' = None \<and> self_parallel self = Some (Some n) \<and> n \<noteq> 0"
  then show pb: "parallel_branch h self build_args = build_args @ [''-j'' @ str_of_int n]"
    for build_args
    by (simp add: parallel_branch_def)
  fix ca ba
  assume "compute_args h self ext = Inr (ca, ba)"
  then obtain ba1 where "ba = parallel_branch h self ba1"
    by (auto elim: compute_args_Inr)
  then show "last ba = ''-j'' @ str_of_int n" and "ba \<noteq> []"
    by (simp_all add: pb)
next
  assume a: "os_environ h ''CMAKE_BUILD_PARALLEL_LEVEL'' \<noteq> None"
  then show pb: "parallel_branch h self build_args = build_args" for build_args
    by (auto simp: parallel_branch_def)
  fix ca ba
  assume "compute_args h self ext = Inr (ca, ba)"
  then obtain ca1 ba1 where
    t: "toolchain_branch h self (extdir_of h self ext) (cfg_of self)
          (base_cmake_args h self (extdir_of h self ext) (cfg_of self), []) = Inr (ca1, ba1)"
    and b: "ba = parallel_branch h self ba1"
    by (rule compute_args_Inr)
  from t have "ba1 = [] \<or> ba1 = [''--config'', cfg_of self]"
    by (auto simp: toolchain_branch_def Let_def split: if_splits sum.splits)
  moreover have "\<not> prefix ''-j'' ''--config''" and "\<not> prefix ''-j'' (cfg_of self)"
    by (simp_all add: cfg_of_def)
  ultimately have "\<forall>a \<in> set ba1. \<not> prefix ''-j'' a"
    by auto
  then show "\<forall>a \<in> set ba. \<not> prefix ''-j'' a"
    by (simp add: b pb)
next
  let ?self = "self\<lparr>self_parallel := p\<rparr>"
  have e: "extdir_of h ?self ext = extdir_of h self ext"
    by (simp add: extdir_of_def Let_def)
  have c: "cfg_of ?self = cfg_of self"
    by (simp add: cfg_of_def)
  have b: "base_cmake_args h ?self extdir cfg = base_cmake_args h self extdir cfg" for extdir cfg
    by (simp add: base_cmake_args_def)
  have t: "toolchain_branch h ?self extdir cfg args = toolchain_branch h self extdir cfg args"
    for extdir cfg args
    by (simp add: toolchain_branch_def Let_def)
  show "map_sum id fst (compute_args h ?self ext) = map_sum id fst (compute_args h self ext)"
    by (simp only: compute_args_drop_parallel e c b t)
next
  let ?h = "h\<lparr>os_environ := (os_environ h)(''CMAKE_BUILD_PARALLEL_LEVEL'' := l)\<rparr>"
  have g: "cmake_generator_of ?h = cmake_generator_of h"
    by (simp add: cmake_generator_of_def environ_get_def)
  have t: "toolchain_branch ?h self extdir cfg args = toolchain_branch h self extdir cfg args"
    for extdir cfg args
    by (simp add: toolchain_branch_def g Let_def)
  have u: "use_omp_of ?h = use_omp_of h"
    by (simp add: use_omp_of_def environ_get_def)
  have a: "environ_get ?h ''ARCHFLAGS'' d = environ_get h ''ARCHFLAGS'' d" for d
    by (simp add: environ_get_def)
  have s: "sys_platform ?h = sys_platform h"
    by simp
  have d: "darwin_branch ?h ca = darwin_branch h ca" for ca
    unfolding darwin_branch_def u a s by (rule refl)
  have e: "extdir_of ?h self ext = extdir_of h self ext"
    by (simp add: extdir_of_def Let_def)
  have b: "base_cmake_args ?h self extdir cfg = base_cmake_args h self extdir cfg" for extdir cfg
    by (simp add: base_cmake_args_def)
  show "map_sum id fst (compute_args ?h self ext) = map_sum id fst (compute_args h self ext)"
    by (simp only: compute_args_drop_parallel t d e b)
qed

text \<open>
  A build with four jobs requested, without and with the variable in the environment.
\<close>

theorem job_count_argument_witness:
  "compute_args (posix_host ''/work'' ''linux'' Map.empty 0)
      (unix_build False ''linux-x86_64'' (Some (Some 4)))
      (pyqubo_ext (posix_host ''/work'' ''linux'' Map.empty 0))
     = Inr ([''-DCMAKE_LIBRARY_OUTPUT_DIRECTORY=/work/build/lib/'',
             ''-DPYTHON_EXECUTABLE=/usr/bin/python3'',
             ''-DPYQUBO_VERSION_INFO=1.0.0'',
             ''-DCMAKE_BUILD_TYPE=Release''], [''-j4''])
   \<and> last [''-j4''] = ''-j'' @ str_of_int 4
   \<and> compute_args (windows_host [''CMAKE_BUILD_PARALLEL_LEVEL'' \<mapsto> ''8''])
      (msvc_build False ''win-amd64'' (Some (Some 4)))
      (pyqubo_ext (windows_host Map.empty))
     = Inr ([''-DCMAKE_LIBRARY_OUTPUT_DIRECTORY=C:'' @ [CHR 0x5C] @ ''lib'' @ [CHR 0x5C],
             ''-DPYTHON_EXECUTABLE=python.exe'',
             ''-DPYQUBO_VERSION_INFO=1.0.0'',
             ''-DCMAKE_BUILD_TYPE=Release'',
             ''-A'', ''x64'',
             ''-DCMAKE_LIBRARY_OUTPUT_DIRECTORY_RELEASE=C:'' @ [CHR 0x5C] @ ''lib'' @ [CHR 0x5C]],
            [''--config'', ''Release''])
   \<and> \<not> prefix ''-j'' ''--config'' \<and> \<not> prefix ''-j'' ''Release''"
proof -
  let ?h1 = "posix_host ''/work'' ''linux'' Map.empty 0"
  let ?h2 = "windows_host [''CMAKE_BUILD_PARALLEL_LEVEL'' \<mapsto> ''8'']"
  let ?self1 = "unix_build False ''linux-x86_64'' (Some (Some 4))"
  let ?self2 = "msvc_build False ''win-amd64'' (Some (Some 4))"
  let ?ext1 = "pyqubo_ext ?h1"
  let ?ext2 = "pyqubo_ext (windows_host Map.empty)"
  let ?ca1 = "[''-DCMAKE_LIBRARY_OUTPUT_DIRECTORY=/work/build/lib/'',
             ''-DPYTHON_EXECUTABLE=/usr/bin/python3'',
             ''-DPYQUBO_VERSION_INFO=1.0.0'',
             ''-DCMAKE_BUILD_TYPE=Release'']"
  let ?ca2 = "[''-DCMAKE_LIBRARY_OUTPUT_DIRECTORY=C:'' @ [CHR 0x5C] @ ''lib'' @ [CHR 0x5C],
             ''-DPYTHON_EXECUTABLE=python.exe'',
             ''-DPYQUBO_VERSION_INFO=1.0.0'',
             ''-DCMAKE_BUILD_TYPE=Release'',
             ''-A'', ''x64'',
             ''-DCMAKE_LIBRARY_OUTPUT_DIRECTORY_RELEASE=C:'' @ [CHR 0x5C] @ ''lib'' @ [CHR 0x5C]]"
  have a1: "os_environ ?h1 ''CMAKE_BUILD_PARALLEL_LEVEL'' = None
            \<and> self_parallel ?self1 = Some (Some 4) \<and> (4::int) \<noteq> 0"
    by (simp add: posix_host_def unix_build_def)
  have a2: "os_environ ?h2 ''CMAKE_BUILD_PARALLEL_LEVEL'' \<noteq> None"
    by (simp add: windows_host_def)
  have c1: "compute_args ?h1 ?self1 ?ext1 = Inr (?ca1, [''-j4''])"
    by (simp add: eval_defs)
  have c2: "compute_args ?h2 ?self2 ?ext2 = Inr (?ca2, [''--config'', ''Release''])"
    by (simp add: eval_defs)
  from job_count_argument [of ?h1 ?self1 4 _ ?ext1] a1 c1
  have "last [''-j4''] = ''-j'' @ str_of_int 4"
    by auto
  moreover from job_count_argument [of ?h2 ?self2 _ _ ?ext2] a2 c2
  have "\<forall>a \<in> set [''--config'', ''Release'']. \<not> prefix ''-j'' a"
    by blast
  then have "\<not> prefix ''-j'' ''--config'' \<and> \<not> prefix ''-j'' ''Release''"
    by simp
  ultimately show ?thesis
    using c1 c2 by simp
qed

subsection \<open>The branch for macOS\<close>

text \<open>
  C1. On macOS with \<^verbatim>\<open>USE_OMP\<close> unset, OpenMP resolves to disabled; line 94 then reads
  the unassigned local \<^verbatim>\<open>cmake_wargs\<close>, and the build ends with \<^verbatim>\<open>UnboundLocalError\<close>
  and without any effect: no define is appended to \<^verbatim>\<open>cmake_args\<close> and the configure
  call is never made.
\<close>

theorem use_omp_disabled_raises:
  "use_omp_of (posix_host ''/work'' ''darwin'' Map.empty 0) = Inr False
   \<and> build_extension (posix_host ''/work'' ''darwin'' Map.empty 0)
        (unix_build False ''macosx-11.0-arm64'' None)
        (pyqubo_ext (posix_host ''/work'' ''darwin'' Map.empty 0))
       = ([], Inl (UnboundLocalError ''cmake_wargs''))"
  by (simp add: eval_defs)

text \<open>
  What lines 96 to 98 do once they are reached, that is with \<^verbatim>\<open>USE_OMP=True\<close>: the
  search returns the values of the \<^verbatim>\<open>-arch\<close> tokens of the flags string, as many as
  there are and from left to right; the define lists them, joined by semicolons, and is
  left out when there is none.
\<close>

lemma space_is_space: "\<not> non_space (CHR '' '')"
  by (simp add: non_space_def is_space_def)

lemma prefix_arch_takeWhile:
  assumes "prefix ''-arch '' s"
  shows "takeWhile non_space s = ''-arch''"
proof -
  from assms obtain t where "s = ''-arch '' @ t"
    by (auto simp: prefix_def)
  then show ?thesis
    by (simp add: non_space_def is_space_def)
qed

lemma takeWhile_word:
  assumes "list_all non_space w" and "flag_end r"
  shows "takeWhile non_space (w @ r) = w" and "dropWhile non_space (w @ r) = r"
proof -
  have w: "\<forall>c \<in> set w. non_space c"
    using assms(1) by (simp add: list_all_iff)
  have r: "takeWhile non_space r = []" "dropWhile non_space r = r"
    using assms(2) by (cases r; simp add: flag_end_def space_is_space)+
  show "takeWhile non_space (w @ r) = w"
    using w r by (simp add: takeWhile_append2)
  show "dropWhile non_space (w @ r) = r"
    using w r by (simp add: dropWhile_append2)
qed

lemma findall_arch_skip_word:
  assumes "list_all non_space w" and "\<not> endswith w ''-arch''" and "flag_end r"
  shows "findall_arch (w @ r) = findall_arch r"
  using assms
proof (induction w)
  case Nil
  show ?case by simp
next
  case (Cons c w)
  have np: "\<not> prefix ''-arch '' ((c # w) @ r)"
  proof
    assume "prefix ''-arch '' ((c # w) @ r)"
    then have "takeWhile non_space ((c # w) @ r) = ''-arch''"
      by (rule prefix_arch_takeWhile)
    moreover have "takeWhile non_space ((c # w) @ r) = c # w"
      using Cons.prems(1,3) by (rule takeWhile_word)
    ultimately have "c # w = ''-arch''" by simp
    with Cons.prems(2) show False
      by (simp add: endswith_def)
  qed
  have "list_all non_space w" and "\<not> endswith w ''-arch''"
    using Cons.prems(1,2) by (auto simp: endswith_def suffix_Cons)
  then have "findall_arch (w @ r) = findall_arch r"
    using Cons.IH Cons.prems(3) by simp
  moreover have "findall_arch ((c # w) @ r) = findall_arch (w @ r)"
    using np by (auto simp: findall_arch.simps(2))
  ultimately show ?case by simp
qed

lemma findall_arch_match:
  assumes "v \<noteq> []" and "list_all non_space v" and "flag_end r"
  shows "findall_arch (''-arch '' @ v @ r) = v # findall_arch r"
  using assms takeWhile_word [OF assms(2,3)] by (simp add: findall_arch.simps(2))

lemma findall_arch_space: "findall_arch (CHR '' '' # r) = findall_arch r"
  by (simp add: findall_arch.simps(2))

lemma findall_arch_flag:
  assumes "flag_ok f" and "flag_end r"
  shows "findall_arch (flag_text f @ r) = arch_values [f] @ findall_arch r"
proof (cases f)
  case (Arch v)
  with assms show ?thesis
    using findall_arch_match [of v r] by simp
next
  case (Other w)
  with assms show ?thesis
    using findall_arch_skip_word [of w r] by simp
qed

lemma arch_values_Cons: "arch_values (f # fs) = arch_values [f] @ arch_values fs"
  by (cases f) simp_all

lemma archflags_of_Cons:
  "archflags_of (f # fs) = flag_text f @ (if fs = [] then [] else CHR '' '' # archflags_of fs)"
  by (cases fs) (simp_all add: archflags_of_def)

lemma findall_arch_archflags:
  assumes "list_all flag_ok fs"
  shows "findall_arch (archflags_of fs) = arch_values fs"
  using assms
proof (induction fs)
  case Nil
  show ?case by (simp add: archflags_of_def)
next
  case (Cons f fs)
  let ?r = "if fs = [] then [] else CHR '' '' # archflags_of fs"
  have e: "flag_end ?r"
    by (simp add: flag_end_def)
  have "findall_arch ?r = arch_values fs"
    using Cons by (simp add: findall_arch_space)
  moreover have "findall_arch (flag_text f @ ?r) = arch_values [f] @ findall_arch ?r"
    using Cons.prems e by (intro findall_arch_flag) simp_all
  ultimately show ?case
    unfolding archflags_of_Cons arch_values_Cons [of f fs] by simp
qed

lemma darwin_branch_archflags:
  assumes "startswith (sys_platform h) ''darwin''"
    and "use_omp_of h = Inr True"
    and "os_environ h ''ARCHFLAGS'' = Some (archflags_of fs)"
    and "list_all flag_ok fs"
  shows "darwin_branch h cmake_args =
           Inr (if arch_values fs \<noteq> []
                then cmake_args @ [''-DCMAKE_OSX_ARCHITECTURES='' @ str_join '';'' (arch_values fs)]
                else cmake_args)"
proof -
  have "environ_get h ''ARCHFLAGS'' [] = archflags_of fs"
    using assms(3) by (simp add: environ_get_def)
  then have "findall_arch (environ_get h ''ARCHFLAGS'' []) = arch_values fs"
    using assms(4) by (simp add: findall_arch_archflags)
  then show ?thesis
    using assms(1,2) by (simp add: darwin_branch_use_omp_true)
qed

lemma darwin_branch_no_archflags:
  assumes "startswith (sys_platform h) ''darwin''"
    and "use_omp_of h = Inr True"
    and "os_environ h ''ARCHFLAGS'' = None"
  shows "darwin_branch h cmake_args = Inr cmake_args"
  using assms by (simp add: darwin_branch_use_omp_true environ_get_def)

lemma length_arch_values:
  "length (arch_values fs) = length (filter (\<lambda>f. case f of Arch v \<Rightarrow> True | Other w \<Rightarrow> False) fs)"
  by (induction fs rule: arch_values.induct) simp_all

text \<open>
  C7. The search of line 96 finds the two architectures of
  \<^verbatim>\<open>-arch arm64 -arch x86_64\<close> in their order; but on macOS with \<^verbatim>\<open>USE_OMP\<close> unset
  the build ends in line 94 with \<^verbatim>\<open>UnboundLocalError\<close>, before the search is made, and
  no define is emitted.
\<close>

theorem archflags_not_reached:
  "findall_arch ''-arch arm64 -arch x86_64'' = [''arm64'', ''x86_64'']
   \<and> build_extension
        (posix_host ''/work'' ''darwin'' [''ARCHFLAGS'' \<mapsto> ''-arch arm64 -arch x86_64''] 0)
        (unix_build False ''macosx-11.0-arm64'' None)
        (pyqubo_ext (posix_host ''/work'' ''darwin'' Map.empty 0))
       = ([], Inl (UnboundLocalError ''cmake_wargs''))"
  by (simp add: eval_defs)

subsection \<open>The test command\<close>

text \<open>
  No name \<^verbatim>\<open>sysconfig\<close> is bound, so the directory name cannot be computed and no
  command object gets its attribute: the command ends with \<^verbatim>\<open>NameError\<close> before
  \<^verbatim>\<open>run\<close> is entered, whatever the host and whatever the interpreted suite would do.
\<close>

lemma distutils_dir_name_raises: "distutils_dir_name h = Inl (NameError ''sysconfig'')"
  by (simp add: distutils_dir_name_def load_global_def module_globals_def)

lemma initialize_options_raises: "initialize_options h self = Inl (NameError ''sysconfig'')"
  by (simp add: initialize_options_def distutils_dir_name_raises)

lemma test_command_raises: "test_command h super_run = ([], Inl (NameError ''sysconfig''))"
  by (simp add: test_command_def initialize_options_raises)

text \<open>
  C2. With an interpreted suite that fails (the parent's \<^verbatim>\<open>run\<close> would raise) the test
  command does not get to the native test phase: it ends with \<^verbatim>\<open>NameError\<close> for
  \<^verbatim>\<open>sysconfig\<close> while the command object is initialised, without any effect, so neither
  the interpreted suite nor the native test build nor the native test binary is
  attempted. The same holds with a suite that would pass, and the exit status is 1 in
  both cases.
\<close>

theorem test_command_attempts_no_phase:
  "test_command (posix_host ''/work'' ''linux'' Map.empty 0) (Some (DistutilsError ''Test failed''))
     = ([], Inl (NameError ''sysconfig''))
   \<and> filter is_subprocess
         (fst (test_command (posix_host ''/work'' ''linux'' Map.empty 0)
                 (Some (DistutilsError ''Test failed'')))) = []
   \<and> exit_status
         (snd (test_command (posix_host ''/work'' ''linux'' Map.empty 0)
                 (Some (DistutilsError ''Test failed'')))) = 1
   \<and> test_command (posix_host ''/work'' ''linux'' Map.empty 0) None
       = ([], Inl (NameError ''sysconfig''))"
  by (simp add: test_command_def initialize_options_def distutils_dir_name_def load_global_def
        module_globals_def exit_status_def)

end
